theory Spec2Isabelle
  imports Main
begin

section \<open>update53: one update cycle of the dynamic DNS updater\<close>

text \<open>
  The program keeps a route53 "A" record pointing at the caller's public address. The
  development embeds \<^verbatim>\<open>GetPublicIP\<close>, \<^verbatim>\<open>getFromURL\<close> and \<^verbatim>\<open>getFromMetadata\<close> of
  \<^verbatim>\<open>publicip.go\<close> and \<^verbatim>\<open>updatehostname\<close> and \<^verbatim>\<open>getHostedZoneID\<close> of the main file.

  A Go \<^verbatim>\<open>error\<close> is represented by its message (the text \<^verbatim>\<open>Error()\<close> returns), and a
  possibly nil error by an \<open>option\<close>: \<open>None\<close> is \<^verbatim>\<open>nil\<close>. Strings are byte lists, as
  Go strings are.
\<close>

type_synonym error = string

subsection \<open>Data\<close>

text \<open>The two result structs. Both carry a string and an error side by side.\<close>

record PublicIP =
  ip :: string
  e :: "error option"

record futureAns =
  e :: "error option"
  s :: string

text \<open>The configuration struct, with the cached address \<open>previousip\<close>.\<close>

record update53 =
  previousip :: string
  forceip :: string
  getip :: string
  hostname :: string
  hostedzone :: string
  daemon :: bool
  verbose :: bool
  debug :: bool

text \<open>
  The route53 shapes the code reads and builds. \<^verbatim>\<open>HostedZone.Name\<close> and
  \<^verbatim>\<open>HostedZone.Id\<close> are required members of the listing response and are modelled as
  present. The request is kept nested as the code builds it; the members of the record
  set are prefixed because \<open>Name\<close> is already the zone's. \<^verbatim>\<open>TTL\<close> is an \<^verbatim>\<open>int64\<close> that
  only ever holds the constant 300, so \<open>int\<close> loses nothing.
\<close>

record HostedZone =
  Name :: string
  Id :: string

record ResourceRecord =
  Value :: string

record ResourceRecordSet =
  rrs_Name :: string
  rrs_Type :: string
  ResourceRecords :: "ResourceRecord list"
  TTL :: int

record Change =
  Action :: string
  ResourceRecordSet :: ResourceRecordSet

record ChangeBatch =
  Changes :: "Change list"
  Comment :: string

record ChangeResourceRecordSetsInput =
  ChangeBatch :: ChangeBatch
  HostedZoneId :: string

subsection \<open>What lies outside the repository\<close>

text \<open>
  Everything the code calls but does not define is a member of the environment of one
  cycle:
  \<^item> \<open>ParseIP x\<close> holds when \<^verbatim>\<open>net.ParseIP(x)\<close> is not nil (the code only tests
    the result against nil);
  \<^item> \<open>TrimSpace\<close> is \<^verbatim>\<open>strings.TrimSpace\<close>;
  \<^item> \<open>http_Get url\<close> is the outcome of \<^verbatim>\<open>http.Get(url)\<close> followed by
    \<^verbatim>\<open>ioutil.ReadAll(resp.Body)\<close>: \<open>Inl\<close> when the request fails, else the outcome of
    reading the body, \<open>Inl\<close> when reading fails and \<open>Inr\<close> the body otherwise;
  \<^item> \<open>md_GetMetadata p\<close> is the pair \<^verbatim>\<open>md.GetMetadata(p)\<close> returns;
  \<^item> \<open>r53_ListHostedZones\<close> is the error or the zones of the first page, in the
    provider's order;
  \<^item> \<open>r53_ChangeResourceRecordSets\<close> is the error the provider answers a change with.
  Each service is called at most once in a cycle, so one answer per cycle is enough.
\<close>

record env =
  ParseIP :: "string \<Rightarrow> bool"
  TrimSpace :: "string \<Rightarrow> string"
  http_Get :: "string \<Rightarrow> error + (error + string)"
  md_GetMetadata :: "string \<Rightarrow> string \<times> error option"
  r53_ListHostedZones :: "error + HostedZone list"
  r53_ChangeResourceRecordSets :: "ChangeResourceRecordSetsInput \<Rightarrow> error option"

text \<open>
  What a cycle does to the outside is recorded in order: the network calls, the start of
  each of the two resolvers, the values sent on \<^verbatim>\<open>errChan\<close> and the lines logged.
\<close>

datatype event =
    HttpGet string
  | MetadataGet string
  | ListZones
  | Submit ChangeResourceRecordSetsInput
  | Launch_GetPublicIP string string
  | Launch_getHostedZoneID string string
  | Send "error option"
  | Log string

subsection \<open>The address resolver (publicip.go)\<close>

definition getFromMetadata :: "env \<Rightarrow> (string \<times> error option) \<times> event list" where
  "getFromMetadata w = (md_GetMetadata w ''public-ipv4'', [MetadataGet ''public-ipv4''])"

definition getFromURL :: "env \<Rightarrow> string \<Rightarrow> (string \<times> error option) \<times> event list" where
  "getFromURL w url =
     (case http_Get w url of
        Inl err \<Rightarrow>
          (('''', Some (''unable to get public ip details from: '' @ url @ '' error: '' @ err)),
           [HttpGet url])
      | Inr resp \<Rightarrow>
          (case resp of
             Inl err \<Rightarrow>
               (('''', Some (''unable to read public ip in response: '' @ err)), [HttpGet url])
           | Inr body \<Rightarrow> ((TrimSpace w body, None), [HttpGet url])))"

text \<open>
  \<^verbatim>\<open>GetPublicIP\<close> starts a goroutine that sends exactly one \<^verbatim>\<open>PublicIP\<close> on a fresh
  channel and closes it; the caller receives that one value. The model returns it, with
  the network calls made on the way.
\<close>

definition GetPublicIP :: "env \<Rightarrow> string \<Rightarrow> string \<Rightarrow> PublicIP \<times> event list" where
  "GetPublicIP w ip0 geturl =
     (let ((ip1, err), t) =
            (if ip0 = []
             then (if geturl \<noteq> [] then getFromURL w geturl else getFromMetadata w)
             else ((ip0, None), []))
      in case err of
           Some x \<Rightarrow> (\<lparr>ip = '''', e = Some (''error getting public ip: '' @ x)\<rparr>, t)
         | None \<Rightarrow>
             if \<not> ParseIP w ip1
             then (\<lparr>ip = '''', e = Some (''unable to parse public ip from: '' @ ip1)\<rparr>, t)
             else (\<lparr>ip = ip1, e = None\<rparr>, t))"

subsection \<open>The zone resolver\<close>

text \<open>\<^verbatim>\<open>strings.HasSuffix\<close>: the last \<open>length suffix\<close> bytes are the suffix.\<close>

definition HasSuffix :: "string \<Rightarrow> string \<Rightarrow> bool" where
  "HasSuffix str suffix =
     (length suffix \<le> length str \<and> drop (length str - length suffix) str = suffix)"

text \<open>
  The loop over \<^verbatim>\<open>resp.HostedZones\<close>: it leaves at the first zone whose name ends the
  hostname, with that zone's id; \<open>None\<close> is the nil \<^verbatim>\<open>hzid\<close> after the loop.
\<close>

fun scanHostedZones :: "string \<Rightarrow> HostedZone list \<Rightarrow> string option" where
  "scanHostedZones host [] = None"
| "scanHostedZones host (hz # hzs) =
     (if HasSuffix host (Name hz) then Some (Id hz) else scanHostedZones host hzs)"

definition getHostedZoneID :: "env \<Rightarrow> string \<Rightarrow> string \<Rightarrow> futureAns \<times> event list" where
  "getHostedZoneID w host hz =
     (if hz \<noteq> [] then (\<lparr>e = None, s = hz\<rparr>, [])
      else
        case r53_ListHostedZones w of
          Inl err \<Rightarrow> (\<lparr>e = Some err, s = ''''\<rparr>, [ListZones])
        | Inr zones \<Rightarrow>
            (case scanHostedZones host zones of
               None \<Rightarrow> (\<lparr>e = Some ''unable to find hosted domain details'', s = ''''\<rparr>, [ListZones])
             | Some hzid \<Rightarrow> (\<lparr>e = None, s = hzid\<rparr>, [ListZones])))"

subsection \<open>One cycle\<close>

text \<open>
  \<^verbatim>\<open>updatehostname\<close> works on the shared struct through a pointer; the model takes the
  struct and returns it as the cycle leaves it, with the events of the cycle. The send
  on \<^verbatim>\<open>errChan\<close> is an event: the model assumes the main loop takes the value, so that
  the goroutine goes on. The trailing newline of a logged line is left out.
\<close>

definition updatehostname :: "env \<Rightarrow> update53 \<Rightarrow> update53 \<times> event list" where
  "updatehostname w u53 =
     (if hostname u53 = [] then (u53, [Send (Some ''invalid hostname supplied'')])
      else
        let u = (if \<not> HasSuffix (hostname u53) ''.''
                 then u53\<lparr>hostname := hostname u53 @ ''.''\<rparr> else u53)
        in
          if forceip u \<noteq> [] \<and> \<not> ParseIP w (forceip u)
          then (u, [Send (Some (''invalid force ip supplied: '' @ forceip u))])
          else
            let (publicIP, t0) = GetPublicIP w (forceip u) (getip u);
                t1 = Launch_GetPublicIP (forceip u) (getip u) # t0
            in
              case PublicIP.e publicIP of
                Some err \<Rightarrow> (u, t1 @ [Send (Some err)])
              | None \<Rightarrow>
                  if previousip u = ip publicIP
                  then (u, t1 @ (if verbose u
                                 then [Log ''info - public ip has not changed so not updating'']
                                 else []))
                  else
                    let (hzID, t2) = getHostedZoneID w (hostname u) (hostedzone u);
                        t3 = t1 @ Launch_getHostedZoneID (hostname u) (hostedzone u) # t2
                    in
                      case futureAns.e hzID of
                        Some err \<Rightarrow> (u, t3 @ [Send (Some err)])
                      | None \<Rightarrow>
                          let params =
                                \<lparr>ChangeBatch =
                                   \<lparr>Changes =
                                      [\<lparr>Action = ''UPSERT'',
                                        ResourceRecordSet =
                                          \<lparr>rrs_Name = hostname u,
                                           rrs_Type = ''A'',
                                           ResourceRecords = [\<lparr>Value = ip publicIP\<rparr>],
                                           TTL = 300\<rparr>\<rparr>],
                                    Comment = ''Update53''\<rparr>,
                                 HostedZoneId = s hzID\<rparr>;
                              err = r53_ChangeResourceRecordSets w params
                          in
                            (u\<lparr>previousip := ip publicIP\<rparr>,
                             t3 @ [Submit params, Send err] @
                               (if verbose u
                                then [Log (''info - updated ip cache. new: '' @ ip publicIP @
                                           '' old: '' @ previousip u)]
                                else [])))"


subsection \<open>Reading a trace\<close>

fun sends :: "event list \<Rightarrow> error option list" where
  "sends [] = []"
| "sends (Send v # t) = v # sends t"
| "sends (x # t) = sends t"

fun submitted :: "event list \<Rightarrow> ChangeResourceRecordSetsInput list" where
  "submitted [] = []"
| "submitted (Submit p # t) = p # submitted t"
| "submitted (x # t) = submitted t"

fun zone_launches :: "event list \<Rightarrow> nat" where
  "zone_launches [] = 0"
| "zone_launches (Launch_getHostedZoneID h z # t) = Suc (zone_launches t)"
| "zone_launches (x # t) = zone_launches t"

subsection \<open>A concrete environment\<close>

text \<open>
  Closed instances need functions in place of the library calls. \<open>dotted_quad\<close>
  recognises the dotted-decimal literals with four fields in 0..255 and no leading
  zero, all of which \<^verbatim>\<open>net.ParseIP\<close> accepts; \<open>trim_ascii\<close> strips the six ASCII
  white space bytes from both ends. They stand for the library only in the instances
  below; the general theorems are about any \<open>ParseIP\<close> and \<open>TrimSpace\<close>.
\<close>

fun fields :: "string \<Rightarrow> string list" where
  "fields [] = [[]]"
| "fields (c # cs) =
     (if c = CHR ''.'' then [] # fields cs
      else case fields cs of [] \<Rightarrow> [[c]] | f # fs \<Rightarrow> (c # f) # fs)"

definition octet :: "string \<Rightarrow> bool" where
  "octet f =
     (f \<noteq> [] \<and> length f \<le> 3 \<and> list_all (\<lambda>c. c \<in> set ''0123456789'') f \<and>
      (length f = 1 \<or> take 1 f \<noteq> ''0'') \<and>
      foldl (\<lambda>n c. 10 * n + (of_char c - 48)) (0::nat) f \<le> 255)"

definition dotted_quad :: "string \<Rightarrow> bool" where
  "dotted_quad x = (length (fields x) = 4 \<and> list_all octet (fields x))"

definition ascii_space :: "char \<Rightarrow> bool" where
  "ascii_space c = (c \<in> set [CHR 0x09, CHR 0x0A, CHR 0x0B, CHR 0x0C, CHR 0x0D, CHR '' ''])"

definition trim_ascii :: "string \<Rightarrow> string" where
  "trim_ascii x = rev (dropWhile ascii_space (rev (dropWhile ascii_space x)))"

text \<open>
  The environment of the instances: the address services answer as given, the zone
  listing answers \<open>zs\<close> and the provider answers every change with \<open>r\<close>.
\<close>

definition sample_env ::
  "(string \<Rightarrow> error + (error + string)) \<Rightarrow> string \<times> error option \<Rightarrow>
   error + HostedZone list \<Rightarrow> error option \<Rightarrow> env" where
  "sample_env g m zs r =
     \<lparr>ParseIP = dotted_quad, TrimSpace = trim_ascii, http_Get = g,
      md_GetMetadata = (\<lambda>p. m), r53_ListHostedZones = zs,
      r53_ChangeResourceRecordSets = (\<lambda>p. r)\<rparr>"

definition no_url :: "string \<Rightarrow> error + (error + string)" where
  "no_url url = Inl ''connection refused''"

definition no_metadata :: "string \<times> error option" where
  "no_metadata = ('''', Some ''metadata unavailable'')"

definition home_u53 :: update53 where
  "home_u53 =
     \<lparr>previousip = '''', forceip = ''203.0.113.5'', getip = '''',
      hostname = ''home.example.com'', hostedzone = '''', daemon = False,
      verbose = False, debug = False\<rparr>"

definition example_zones :: "HostedZone list" where
  "example_zones = [\<lparr>Name = ''example.com.'', Id = ''Z123''\<rparr>]"

text \<open>
  Further instances: a provider that rejects every change, a second zone below the
  first, address services that would answer with other valid addresses, and the struct
  of a later cycle whose cache already holds the address.
\<close>

definition accepting_env :: env where
  "accepting_env = sample_env no_url no_metadata (Inr example_zones) None"

definition rejecting_env :: env where
  "rejecting_env = sample_env no_url no_metadata (Inr example_zones) (Some ''Throttling'')"

definition two_zones :: "HostedZone list" where
  "two_zones =
     [\<lparr>Name = ''example.com.'', Id = ''Z1''\<rparr>, \<lparr>Name = ''sub.example.com.'', Id = ''Z2''\<rparr>]"

definition two_zones_env :: env where
  "two_zones_env = sample_env no_url no_metadata (Inr two_zones) None"

definition other_url :: "string \<Rightarrow> error + (error + string)" where
  "other_url url = Inr (Inr ''198.51.100.7'')"

definition other_sources_env :: env where
  "other_sources_env = sample_env other_url (''192.0.2.9'', None) (Inr example_zones) None"

definition garbled_url :: "string \<Rightarrow> error + (error + string)" where
  "garbled_url url = Inr (Inr '' not-an-ip '')"

definition garbled_env :: env where
  "garbled_env = sample_env garbled_url (''999.1.1.1'', None) (Inr example_zones) None"

definition cached_u53 :: update53 where
  "cached_u53 = home_u53\<lparr>previousip := ''203.0.113.5''\<rparr>"

definition metadata_u53 :: update53 where
  "metadata_u53 = home_u53\<lparr>forceip := ''''\<rparr>"


subsection \<open>Names for two parts of the cycle\<close>

text \<open>
  \<open>dotted u\<close> is the struct once the hostname has been given its trailing dot, and
  \<open>upsert zone name addr\<close> is the request the cycle builds. Both only abbreviate what
  \<open>updatehostname\<close> spells out; they serve the case analysis below.
\<close>

definition dotted :: "update53 \<Rightarrow> update53" where
  "dotted u = (if HasSuffix (hostname u) ''.'' then u else u\<lparr>hostname := hostname u @ ''.''\<rparr>)"

definition upsert :: "string \<Rightarrow> string \<Rightarrow> string \<Rightarrow> ChangeResourceRecordSetsInput" where
  "upsert zone name addr =
     \<lparr>ChangeBatch =
        \<lparr>Changes =
           [\<lparr>Action = ''UPSERT'',
             ResourceRecordSet =
               \<lparr>rrs_Name = name, rrs_Type = ''A'',
                ResourceRecords = [\<lparr>Value = addr\<rparr>], TTL = 300\<rparr>\<rparr>],
         Comment = ''Update53''\<rparr>,
      HostedZoneId = zone\<rparr>"

section \<open>Properties\<close>

subsection \<open>Auxiliary facts\<close>

lemma sends_append: "sends (a @ b) = sends a @ sends b"
  by (induction a rule: sends.induct) simp_all

lemma submitted_append: "submitted (a @ b) = submitted a @ submitted b"
  by (induction a rule: submitted.induct) simp_all

lemma zone_launches_append: "zone_launches (a @ b) = zone_launches a + zone_launches b"
  by (induction a rule: zone_launches.induct) simp_all

lemma dotted_quad_203: "dotted_quad ''203.0.113.5''"
  by code_simp



lemma snd_getFromURL: "snd (getFromURL w url) = [HttpGet url]"
  by (simp add: getFromURL_def split: sum.splits)

lemma snd_getFromMetadata: "snd (getFromMetadata w) = [MetadataGet ''public-ipv4'']"
  by (simp add: getFromMetadata_def)

lemma snd_GetPublicIP:
  "snd (GetPublicIP w ov geturl) =
     (if ov = [] then (if geturl \<noteq> [] then [HttpGet geturl] else [MetadataGet ''public-ipv4''])
      else [])"
proof -
  have "snd (GetPublicIP w ov geturl) =
          snd (if ov = [] then (if geturl \<noteq> [] then getFromURL w geturl else getFromMetadata w)
               else ((ov, None), []))"
    by (simp add: GetPublicIP_def Let_def split: prod.splits option.splits)
  then show ?thesis
    by (simp add: snd_getFromURL snd_getFromMetadata)
qed

lemma snd_getHostedZoneID:
  "snd (getHostedZoneID w host hz) = (if hz \<noteq> [] then [] else [ListZones])"
  by (simp add: getHostedZoneID_def split: option.splits sum.splits)

lemma GetPublicIP_quiet:
  assumes "GetPublicIP w ov geturl = (r, t)"
  shows "sends t = []" "submitted t = []" "zone_launches t = 0" "ListZones \<notin> set t"
  using snd_GetPublicIP [of w ov geturl] assms by (simp_all split: if_splits)

lemma getHostedZoneID_quiet:
  assumes "getHostedZoneID w host hz = (z, t)"
  shows "sends t = []" "submitted t = []" "zone_launches t = 0"
  using snd_getHostedZoneID [of w host hz] assms by (simp_all split: if_splits)

lemmas trace_append = sends_append submitted_append zone_launches_append

lemma scanHostedZones_first:
  "\<forall>hz \<in> set pre. \<not> HasSuffix host (Name hz) \<Longrightarrow> HasSuffix host (Name z) \<Longrightarrow>
   scanHostedZones host (pre @ z # post) = Some (Id z)"
  by (induction pre) simp_all


lemma updatehostname_cases [case_names no_hostname bad_forceip address_error no_change zone_error change]:
  obtains
    "hostname u = []"
    "updatehostname w u = (u, [Send (Some ''invalid hostname supplied'')])"
  | "hostname u \<noteq> []" "forceip u \<noteq> []" "\<not> ParseIP w (forceip u)"
    "updatehostname w u =
       (dotted u, [Send (Some (''invalid force ip supplied: '' @ forceip u))])"
  | r t0 err where
    "hostname u \<noteq> []" "forceip u = [] \<or> ParseIP w (forceip u)"
    "GetPublicIP w (forceip u) (getip u) = (r, t0)" "PublicIP.e r = Some err"
    "updatehostname w u =
       (dotted u, Launch_GetPublicIP (forceip u) (getip u) # t0 @ [Send (Some err)])"
  | r t0 where
    "hostname u \<noteq> []" "forceip u = [] \<or> ParseIP w (forceip u)"
    "GetPublicIP w (forceip u) (getip u) = (r, t0)" "PublicIP.e r = None"
    "previousip u = ip r"
    "updatehostname w u =
       (dotted u, Launch_GetPublicIP (forceip u) (getip u) # t0 @
          (if verbose u then [Log ''info - public ip has not changed so not updating'']
           else []))"
  | r t0 z t2 err where
    "hostname u \<noteq> []" "forceip u = [] \<or> ParseIP w (forceip u)"
    "GetPublicIP w (forceip u) (getip u) = (r, t0)" "PublicIP.e r = None"
    "previousip u \<noteq> ip r"
    "getHostedZoneID w (hostname (dotted u)) (hostedzone u) = (z, t2)"
    "futureAns.e z = Some err"
    "updatehostname w u =
       (dotted u, Launch_GetPublicIP (forceip u) (getip u) # t0 @
          Launch_getHostedZoneID (hostname (dotted u)) (hostedzone u) # t2 @
          [Send (Some err)])"
  | r t0 z t2 where
    "hostname u \<noteq> []" "forceip u = [] \<or> ParseIP w (forceip u)"
    "GetPublicIP w (forceip u) (getip u) = (r, t0)" "PublicIP.e r = None"
    "previousip u \<noteq> ip r"
    "getHostedZoneID w (hostname (dotted u)) (hostedzone u) = (z, t2)"
    "futureAns.e z = None"
    "updatehostname w u =
       ((dotted u)\<lparr>previousip := ip r\<rparr>,
        Launch_GetPublicIP (forceip u) (getip u) # t0 @
          Launch_getHostedZoneID (hostname (dotted u)) (hostedzone u) # t2 @
          [Submit (upsert (s z) (hostname (dotted u)) (ip r)),
           Send (r53_ChangeResourceRecordSets w (upsert (s z) (hostname (dotted u)) (ip r)))] @
          (if verbose u
           then [Log (''info - updated ip cache. new: '' @ ip r @ '' old: '' @ previousip u)]
           else []))"
proof -
  obtain r t0 where G: "GetPublicIP w (forceip u) (getip u) = (r, t0)"
    by (cases "GetPublicIP w (forceip u) (getip u)")
  obtain z t2 where Z: "getHostedZoneID w (hostname (dotted u)) (hostedzone u) = (z, t2)"
    by (cases "getHostedZoneID w (hostname (dotted u)) (hostedzone u)")
  show thesis
  proof (cases "hostname u = []")
    case True
    then have "updatehostname w u = (u, [Send (Some ''invalid hostname supplied'')])"
      by (simp add: updatehostname_def)
    with True that(1) show thesis by blast
  next
    case h: False
    show thesis
    proof (cases "forceip u \<noteq> [] \<and> \<not> ParseIP w (forceip u)")
      case True
      with h have "updatehostname w u =
          (dotted u, [Send (Some (''invalid force ip supplied: '' @ forceip u))])"
        by (simp add: updatehostname_def Let_def dotted_def)
      with True h that(2) show thesis by blast
    next
      case False
      then have f: "forceip u = [] \<or> ParseIP w (forceip u)" by blast
      show thesis
      proof (cases "PublicIP.e r")
        case (Some err)
        with h f G have "updatehostname w u =
            (dotted u, Launch_GetPublicIP (forceip u) (getip u) # t0 @ [Send (Some err)])"
          by (auto simp add: updatehostname_def Let_def dotted_def)
        with that(3) [OF h f G Some] show thesis by blast
      next
        case n: None
        show thesis
        proof (cases "previousip u = ip r")
          case True
          with h f G n have "updatehostname w u =
              (dotted u, Launch_GetPublicIP (forceip u) (getip u) # t0 @
                 (if verbose u then [Log ''info - public ip has not changed so not updating'']
                  else []))"
            by (auto simp add: updatehostname_def Let_def dotted_def)
          with that(4) [OF h f G n True] show thesis by blast
        next
          case c: False
          show thesis
          proof (cases "futureAns.e z")
            case (Some err)
            with h f G n c Z have "updatehostname w u =
                (dotted u, Launch_GetPublicIP (forceip u) (getip u) # t0 @
                   Launch_getHostedZoneID (hostname (dotted u)) (hostedzone u) # t2 @
                   [Send (Some err)])"
              by (auto simp add: updatehostname_def Let_def dotted_def)
            with that(5) [OF h f G n c Z Some] show thesis by blast
          next
            case None
            with h f G n c Z have "updatehostname w u =
                ((dotted u)\<lparr>previousip := ip r\<rparr>,
                 Launch_GetPublicIP (forceip u) (getip u) # t0 @
                   Launch_getHostedZoneID (hostname (dotted u)) (hostedzone u) # t2 @
                   [Submit (upsert (s z) (hostname (dotted u)) (ip r)),
                    Send (r53_ChangeResourceRecordSets w
                            (upsert (s z) (hostname (dotted u)) (ip r)))] @
                   (if verbose u
                    then [Log (''info - updated ip cache. new: '' @ ip r @ '' old: '' @
                               previousip u)]
                    else []))"
              by (auto simp add: updatehostname_def Let_def dotted_def upsert_def)
            with that(6) [OF h f G n c Z None] show thesis by blast
          qed
        qed
      qed
    qed
  qed
qed

lemma home_dot: "\<not> HasSuffix ''home.example.com'' ''.''"
  by (simp add: HasSuffix_def)

lemma home_dot2: "HasSuffix ''home.example.com.'' ''.''"
  by (simp add: HasSuffix_def)

lemma home_zone: "HasSuffix ''home.example.com.'' ''example.com.''"
  by (simp add: HasSuffix_def)

lemma run_home:
  "updatehostname (sample_env g m (Inr example_zones) r) home_u53 =
     (home_u53\<lparr>hostname := ''home.example.com.'', previousip := ''203.0.113.5''\<rparr>,
      [Launch_GetPublicIP ''203.0.113.5'' [], Launch_getHostedZoneID ''home.example.com.'' [],
       ListZones, Submit (upsert ''Z123'' ''home.example.com.'' ''203.0.113.5''), Send r])"
  by (simp add: updatehostname_def Let_def home_u53_def sample_env_def dotted_quad_203
      GetPublicIP_def getHostedZoneID_def example_zones_def home_dot home_zone upsert_def)

lemma run_cached:
  "updatehostname (sample_env g m zs r) cached_u53 =
     (cached_u53\<lparr>hostname := ''home.example.com.''\<rparr>, [Launch_GetPublicIP ''203.0.113.5'' []])"
  by (simp add: updatehostname_def Let_def cached_u53_def home_u53_def sample_env_def dotted_quad_203
      GetPublicIP_def home_dot)

lemma run_cached2:
  "updatehostname (sample_env g m zs r)
      (home_u53\<lparr>hostname := ''home.example.com.'', previousip := ''203.0.113.5''\<rparr>) =
     (home_u53\<lparr>hostname := ''home.example.com.'', previousip := ''203.0.113.5''\<rparr>,
      [Launch_GetPublicIP ''203.0.113.5'' []])"
  by (simp add: updatehostname_def Let_def home_u53_def sample_env_def dotted_quad_203
      GetPublicIP_def home_dot2)

lemma dotted_quad_not_an_ip: "\<not> dotted_quad ''not-an-ip''"
  by code_simp

lemma dotted_quad_999: "\<not> dotted_quad ''999.1.1.1''"
  by code_simp

lemma trim_not_an_ip: "trim_ascii '' not-an-ip '' = ''not-an-ip''"
  by code_simp

lemma envs:
  "ParseIP (sample_env g m zs r) = dotted_quad" "TrimSpace (sample_env g m zs r) = trim_ascii"
  "http_Get (sample_env g m zs r) = g" "md_GetMetadata (sample_env g m zs r) p = m"
  "r53_ListHostedZones (sample_env g m zs r) = zs"
  "r53_ChangeResourceRecordSets (sample_env g m zs r) q = r"
  by (simp_all add: sample_env_def)

lemma dotted_update:
  "dotted u = u\<lparr>hostname := (if HasSuffix (hostname u) ''.'' then hostname u
                               else hostname u @ ''.'')\<rparr>"
  by (simp add: dotted_def)



subsection \<open>The cache after a failed change\<close>

text \<open>
  Claim C1: in a cycle whose DNS change is answered with an error, \<open>previousip\<close> keeps
  the value it had before the cycle, so that the next cycle with the same address
  submits the change again.

  The code sends the provider's answer on \<^verbatim>\<open>errChan\<close> and then stores the address
  whatever the answer was. Every other failing path leaves by \<^verbatim>\<open>return\<close> before the
  store; this one has no test of \<^verbatim>\<open>err\<close>. The theorem runs the cycle with override
  203.0.113.5, an empty cache and a provider that rejects the change: the error is
  reported, the cache holds the address all the same, and the following cycle submits
  nothing.
\<close>

theorem updatehostname_failed_change_is_cached:
  "previousip home_u53 = []
   \<and> sends (snd (updatehostname rejecting_env home_u53)) = [Some ''Throttling'']
   \<and> previousip (fst (updatehostname rejecting_env home_u53)) = ''203.0.113.5''
   \<and> submitted (snd (updatehostname rejecting_env
         (fst (updatehostname rejecting_env home_u53)))) = []"
  by (simp add: rejecting_env_def run_home run_cached2) (simp add: home_u53_def)

subsection \<open>What a cycle may write\<close>

text \<open>
  Claim C2, as amended: a cycle changes no member of the struct other than
  \<open>previousip\<close> and \<open>hostname\<close>, and \<open>hostname\<close> only by the trailing dot it gains
  when it is not empty and does not end in one. The members \<open>forceip\<close>, \<open>getip\<close>,
  \<open>hostedzone\<close>, \<open>daemon\<close>, \<open>verbose\<close> and \<open>debug\<close> are after the cycle what they
  were before it.
\<close>

theorem updatehostname_frame:
  "fst (updatehostname w u) =
     u\<lparr>hostname := (if hostname u = [] \<or> HasSuffix (hostname u) ''.'' then hostname u
                     else hostname u @ ''.''),
       previousip := previousip (fst (updatehostname w u))\<rparr>"
proof (cases rule: updatehostname_cases [where u = u and w = w])
  case no_hostname
  then show ?thesis by simp
qed (simp_all add: dotted_update)

text \<open>
  As stated, with \<open>previousip\<close> the only member written, C2 fails: the cycle stores
  the normalised hostname back into the struct.
\<close>

theorem updatehostname_writes_hostname:
  "hostname home_u53 = ''home.example.com''
   \<and> hostname (fst (updatehostname accepting_env home_u53)) = ''home.example.com.''"
  by (simp add: accepting_env_def run_home) (simp add: home_u53_def)

subsection \<open>What a cycle reports\<close>

text \<open>
  Claim C3, as amended: a cycle sends at most one value on \<^verbatim>\<open>errChan\<close>. It sends
  none exactly when the change detection finds the resolved address equal to the cached
  one (the hostname is not empty, the address was resolved without error and equals
  \<open>previousip\<close>); it sends nil exactly when it submitted one change and the provider
  accepted it; in every other case it sends exactly one error.
\<close>

theorem updatehostname_outcome:
  "length (sends (snd (updatehostname w u))) \<le> 1
   \<and> (sends (snd (updatehostname w u)) = [] \<longleftrightarrow>
        hostname u \<noteq> [] \<and> PublicIP.e (fst (GetPublicIP w (forceip u) (getip u))) = None
        \<and> previousip u = ip (fst (GetPublicIP w (forceip u) (getip u))))
   \<and> (sends (snd (updatehostname w u)) = [None] \<longleftrightarrow>
        (\<exists>p. submitted (snd (updatehostname w u)) = [p]
             \<and> r53_ChangeResourceRecordSets w p = None))
   \<and> (sends (snd (updatehostname w u)) = [] \<or> sends (snd (updatehostname w u)) = [None]
        \<or> (\<exists>err. sends (snd (updatehostname w u)) = [Some err]))"
proof (cases rule: updatehostname_cases [where u = u and w = w])
  case no_hostname
  then show ?thesis by simp
next
  case bad_forceip
  then show ?thesis
    by (auto simp add: GetPublicIP_def)
next
  case (address_error r t0 err)
  then show ?thesis
    by (simp add: trace_append GetPublicIP_quiet [OF address_error(3)])
next
  case (no_change r t0)
  then show ?thesis
    by (simp add: trace_append GetPublicIP_quiet [OF no_change(3)])
next
  case (zone_error r t0 z t2 err)
  then show ?thesis
    by (simp add: trace_append GetPublicIP_quiet [OF zone_error(3)]
        getHostedZoneID_quiet [OF zone_error(6)])
next
  case (change r t0 z t2)
  then show ?thesis
    by (cases "r53_ChangeResourceRecordSets w (upsert (s z) (hostname (dotted u)) (ip r))")
      (simp_all add: trace_append GetPublicIP_quiet [OF change(3)]
        getHostedZoneID_quiet [OF change(6)])
qed

text \<open>
  As stated, with exactly one value reported in every cycle, C3 fails: a cycle that
  finds the address unchanged returns without a send.
\<close>

theorem updatehostname_no_change_is_silent:
  "sends (snd (updatehostname accepting_env cached_u53)) = []
   \<and> length (sends (snd (updatehostname accepting_env cached_u53))) \<noteq> 1"
  by (simp add: accepting_env_def run_cached)

text \<open>The amended statement at three cycles: silent, accepted, rejected.\<close>

theorem updatehostname_outcome_witness:
  "sends (snd (updatehostname accepting_env cached_u53)) = []
   \<and> sends (snd (updatehostname accepting_env home_u53)) = [None]
   \<and> (\<exists>p. submitted (snd (updatehostname accepting_env home_u53)) = [p]
           \<and> r53_ChangeResourceRecordSets accepting_env p = None)
   \<and> length (sends (snd (updatehostname rejecting_env home_u53))) \<le> 1"
proof -
  have a: "sends (snd (updatehostname accepting_env cached_u53)) = []"
    by (simp add: accepting_env_def run_cached)
  have b: "sends (snd (updatehostname accepting_env home_u53)) = [None]"
    by (simp add: accepting_env_def run_home)
  from updatehostname_outcome [of accepting_env home_u53]
    updatehostname_outcome [of rejecting_env home_u53] a b
  show ?thesis by blast
qed

subsection \<open>The first matching zone\<close>

text \<open>
  Claim C4: with no zone id given, the zone resolver answers with the id of the first
  zone, in the order of the listing, whose name is a suffix of the hostname, whatever
  zones follow it, longer matches included. For the zones example.com. (Z1) and
  sub.example.com. (Z2) in this order and the hostname host.sub.example.com. the answer
  is Z1.
\<close>

theorem getHostedZoneID_first_match:
  assumes "r53_ListHostedZones w = Inr (pre @ z # post)"
    and "\<forall>hz \<in> set pre. \<not> HasSuffix host (Name hz)"
    and "HasSuffix host (Name z)"
  shows "fst (getHostedZoneID w host '''') = \<lparr>e = None, s = Id z\<rparr>"
  using assms by (simp add: getHostedZoneID_def scanHostedZones_first)

theorem getHostedZoneID_first_match_witness:
  "r53_ListHostedZones two_zones_env =
     Inr ([] @ \<lparr>Name = ''example.com.'', Id = ''Z1''\<rparr> #
          [\<lparr>Name = ''sub.example.com.'', Id = ''Z2''\<rparr>])
   \<and> HasSuffix ''host.sub.example.com.'' ''example.com.''
   \<and> HasSuffix ''host.sub.example.com.'' ''sub.example.com.''
   \<and> fst (getHostedZoneID two_zones_env ''host.sub.example.com.'' '''') =
       \<lparr>e = None, s = ''Z1''\<rparr>"
proof -
  let ?z1 = "\<lparr>Name = ''example.com.'', Id = ''Z1''\<rparr>"
  let ?z2 = "\<lparr>Name = ''sub.example.com.'', Id = ''Z2''\<rparr>"
  have l: "r53_ListHostedZones two_zones_env = Inr ([] @ ?z1 # [?z2])"
    by (simp add: two_zones_env_def two_zones_def sample_env_def)
  have p: "\<forall>hz \<in> set []. \<not> HasSuffix ''host.sub.example.com.'' (Name hz)"
    by simp
  have m: "HasSuffix ''host.sub.example.com.'' (Name ?z1)"
    by (simp add: HasSuffix_def)
  have m2: "HasSuffix ''host.sub.example.com.'' ''sub.example.com.''"
    by (simp add: HasSuffix_def)
  from getHostedZoneID_first_match [OF l p m] l p m m2 show ?thesis
    by simp
qed

subsection \<open>The override address\<close>

text \<open>
  Claim C5: with a non-empty override the address resolver makes no network call,
  whether or not a source URL is configured: its trace is empty and its result is
  the same whatever the URL fetch and the metadata query would answer. The candidate is
  the override itself: when it parses, the result is the override with no error, and
  otherwise the parse error names it.
\<close>

theorem GetPublicIP_override:
  assumes "ov \<noteq> []"
  shows "snd (GetPublicIP w ov geturl) = []
    \<and> GetPublicIP (w\<lparr>http_Get := g, md_GetMetadata := m\<rparr>) ov geturl = GetPublicIP w ov geturl
    \<and> fst (GetPublicIP w ov geturl) =
        (if ParseIP w ov then \<lparr>ip = ov, e = None\<rparr>
         else \<lparr>ip = '''', e = Some (''unable to parse public ip from: '' @ ov)\<rparr>)"
  using assms by (simp add: GetPublicIP_def)

theorem GetPublicIP_override_witness:
  "''203.0.113.5'' \<noteq> []
   \<and> GetPublicIP other_sources_env ''203.0.113.5'' ''http://ip.example/'' =
       (\<lparr>ip = ''203.0.113.5'', e = None\<rparr>, [])
   \<and> GetPublicIP (other_sources_env\<lparr>http_Get := no_url, md_GetMetadata := (\<lambda>p. no_metadata)\<rparr>)
         ''203.0.113.5'' ''http://ip.example/'' =
       (\<lparr>ip = ''203.0.113.5'', e = None\<rparr>, [])"
proof -
  have n: "''203.0.113.5'' \<noteq> []" by simp
  have v: "ParseIP other_sources_env ''203.0.113.5''"
    by (simp add: other_sources_env_def sample_env_def dotted_quad_203)
  from GetPublicIP_override [OF n, where w = other_sources_env
      and geturl = "''http://ip.example/''" and g = no_url and m = "\<lambda>p. no_metadata"] v
  show ?thesis
    by (simp add: prod_eq_iff)
qed

subsection \<open>Candidates that do not parse\<close>

text \<open>
  Claim C6: whichever source the candidate address comes from (the override, the body
  of the URL's response after trimming, the metadata answer), when it does not parse as
  an IP literal the address resolver's result is the error "unable to parse public ip
  from: " followed by the candidate, with an empty address.
\<close>

theorem GetPublicIP_unparsable:
  assumes "\<not> ParseIP w c"
    and "(ov \<noteq> [] \<and> c = ov)
       \<or> (ov = [] \<and> geturl \<noteq> [] \<and> http_Get w geturl = Inr (Inr body) \<and> c = TrimSpace w body)
       \<or> (ov = [] \<and> geturl = [] \<and> md_GetMetadata w ''public-ipv4'' = (c, None))"
  shows "fst (GetPublicIP w ov geturl) =
           \<lparr>ip = '''', e = Some (''unable to parse public ip from: '' @ c)\<rparr>"
  using assms by (auto simp add: GetPublicIP_def getFromURL_def getFromMetadata_def)

theorem GetPublicIP_unparsable_witness:
  "\<not> ParseIP garbled_env ''not-an-ip'' \<and> \<not> ParseIP garbled_env ''999.1.1.1''
   \<and> TrimSpace garbled_env '' not-an-ip '' = ''not-an-ip''
   \<and> fst (GetPublicIP garbled_env ''999.1.1.1'' '''') =
       \<lparr>ip = '''', e = Some ''unable to parse public ip from: 999.1.1.1''\<rparr>
   \<and> fst (GetPublicIP garbled_env '''' ''http://ip.example/'') =
       \<lparr>ip = '''', e = Some ''unable to parse public ip from: not-an-ip''\<rparr>
   \<and> fst (GetPublicIP garbled_env '''' '''') =
       \<lparr>ip = '''', e = Some ''unable to parse public ip from: 999.1.1.1''\<rparr>"
proof -
  have p1: "\<not> ParseIP garbled_env ''not-an-ip''"
    by (simp add: garbled_env_def envs dotted_quad_not_an_ip)
  have p2: "\<not> ParseIP garbled_env ''999.1.1.1''"
    by (simp add: garbled_env_def envs dotted_quad_999)
  have t: "TrimSpace garbled_env '' not-an-ip '' = ''not-an-ip''"
    by (simp add: garbled_env_def envs trim_not_an_ip)
  have g: "http_Get garbled_env ''http://ip.example/'' = Inr (Inr '' not-an-ip '')"
    by (simp add: garbled_env_def sample_env_def garbled_url_def)
  have m: "md_GetMetadata garbled_env ''public-ipv4'' = (''999.1.1.1'', None)"
    by (simp add: garbled_env_def sample_env_def)
  have a: "fst (GetPublicIP garbled_env ''999.1.1.1'' '''') =
       \<lparr>ip = '''', e = Some (''unable to parse public ip from: '' @ ''999.1.1.1'')\<rparr>"
    by (rule GetPublicIP_unparsable [OF p2]) simp
  have b: "fst (GetPublicIP garbled_env '''' ''http://ip.example/'') =
       \<lparr>ip = '''', e = Some (''unable to parse public ip from: '' @ ''not-an-ip'')\<rparr>"
    by (rule GetPublicIP_unparsable [OF p1, where body = "'' not-an-ip ''"]) (simp add: g t)
  have c: "fst (GetPublicIP garbled_env '''' '''') =
       \<lparr>ip = '''', e = Some (''unable to parse public ip from: '' @ ''999.1.1.1'')\<rparr>"
    by (rule GetPublicIP_unparsable [OF p2]) (simp add: m)
  from p1 p2 t a b c show ?thesis by simp
qed

subsection \<open>Two cycles with one address\<close>




subsection \<open>A failed address resolution ends the cycle\<close>

text \<open>
  Claim C8: in a cycle whose address resolution yields an error, the zone resolver is
  not started, the zones are not listed, no change is submitted and the cache is left
  alone; and when the cycle reaches the address resolver (the hostname is not empty and
  an override, if given, parses), the resolver's error is the one value the cycle
  reports.
\<close>

theorem updatehostname_address_error:
  assumes "PublicIP.e (fst (GetPublicIP w (forceip u) (getip u))) = Some err"
  shows "zone_launches (snd (updatehostname w u)) = 0
       \<and> ListZones \<notin> set (snd (updatehostname w u))
       \<and> submitted (snd (updatehostname w u)) = []
       \<and> previousip (fst (updatehostname w u)) = previousip u
       \<and> (hostname u \<noteq> [] \<and> (forceip u = [] \<or> ParseIP w (forceip u)) \<longrightarrow>
            sends (snd (updatehostname w u)) = [Some err])"
proof (cases rule: updatehostname_cases [where u = u and w = w])
  case (address_error r t0 err')
  with assms show ?thesis
    by (simp add: trace_append dotted_update GetPublicIP_quiet [OF address_error(3)])
qed (use assms in \<open>simp_all add: dotted_update\<close>)

theorem updatehostname_address_error_witness:
  "PublicIP.e (fst (GetPublicIP accepting_env (forceip metadata_u53) (getip metadata_u53))) =
       Some ''error getting public ip: metadata unavailable''
   \<and> hostname metadata_u53 \<noteq> []
   \<and> forceip metadata_u53 = []
   \<and> zone_launches (snd (updatehostname accepting_env metadata_u53)) = 0
   \<and> ListZones \<notin> set (snd (updatehostname accepting_env metadata_u53))
   \<and> submitted (snd (updatehostname accepting_env metadata_u53)) = []
   \<and> previousip (fst (updatehostname accepting_env metadata_u53)) = previousip metadata_u53
   \<and> sends (snd (updatehostname accepting_env metadata_u53)) =
       [Some ''error getting public ip: metadata unavailable'']"
proof -
  have h: "hostname metadata_u53 \<noteq> []"
    by (simp add: metadata_u53_def home_u53_def)
  have f: "forceip metadata_u53 = []"
    by (simp add: metadata_u53_def)
  have g: "PublicIP.e (fst (GetPublicIP accepting_env (forceip metadata_u53)
        (getip metadata_u53))) = Some ''error getting public ip: metadata unavailable''"
    by (simp add: metadata_u53_def home_u53_def GetPublicIP_def getFromMetadata_def
        accepting_env_def envs no_metadata_def)
  from updatehostname_address_error [OF g] h f g show ?thesis
    by blast
qed

subsection \<open>The cycle from end to end\<close>

text \<open>
  Claim C9: with the override 203.0.113.5, the hostname home.example.com, no zone id,
  an empty cache and a listing in which example.com. (Z123) is the first zone whose
  name ends home.example.com., one cycle submits exactly one change: zone Z123, record
  name home.example.com. with the trailing dot, value 203.0.113.5, TTL 300, type A,
  action UPSERT. The provider's answer is what the cycle reports, and when the provider
  accepts, \<open>previousip\<close> is 203.0.113.5 afterwards.
\<close>

theorem updatehostname_end_to_end:
  assumes "previousip u = []" and "forceip u = ''203.0.113.5''"
    and "hostname u = ''home.example.com''" and "hostedzone u = []"
    and "ParseIP w ''203.0.113.5''"
    and "r53_ListHostedZones w = Inr (pre @ \<lparr>Name = ''example.com.'', Id = ''Z123''\<rparr> # post)"
    and "\<forall>hz \<in> set pre. \<not> HasSuffix ''home.example.com.'' (Name hz)"
  shows "let req =
           \<lparr>ChangeBatch =
              \<lparr>Changes =
                 [\<lparr>Action = ''UPSERT'',
                   ResourceRecordSet =
                     \<lparr>rrs_Name = ''home.example.com.'', rrs_Type = ''A'',
                      ResourceRecords = [\<lparr>Value = ''203.0.113.5''\<rparr>], TTL = 300\<rparr>\<rparr>],
               Comment = ''Update53''\<rparr>,
            HostedZoneId = ''Z123''\<rparr>
         in submitted (snd (updatehostname w u)) = [req]
          \<and> sends (snd (updatehostname w u)) = [r53_ChangeResourceRecordSets w req]
          \<and> (r53_ChangeResourceRecordSets w req = None \<longrightarrow>
               previousip (fst (updatehostname w u)) = ''203.0.113.5'')"
proof -
  have hs: "\<not> HasSuffix ''home.example.com'' ''.''"
    by (simp add: HasSuffix_def)
  have m: "HasSuffix ''home.example.com.'' (Name \<lparr>Name = ''example.com.'', Id = ''Z123''\<rparr>)"
    by (simp add: HasSuffix_def)
  have G: "GetPublicIP w (forceip u) (getip u) = (\<lparr>ip = ''203.0.113.5'', e = None\<rparr>, [])"
    using assms(2,5) by (simp add: GetPublicIP_def)
  have Z: "getHostedZoneID w ''home.example.com.'' [] = (\<lparr>e = None, s = ''Z123''\<rparr>, [ListZones])"
    using assms(6) scanHostedZones_first [OF assms(7) m, of post]
    by (simp add: getHostedZoneID_def)
  show ?thesis
    using assms(1-5) hs G Z
    by (simp add: updatehostname_def Let_def)
qed

theorem updatehostname_end_to_end_witness:
  "previousip home_u53 = [] \<and> forceip home_u53 = ''203.0.113.5''
   \<and> hostname home_u53 = ''home.example.com'' \<and> hostedzone home_u53 = []
   \<and> ParseIP accepting_env ''203.0.113.5''
   \<and> r53_ListHostedZones accepting_env = Inr ([] @ \<lparr>Name = ''example.com.'', Id = ''Z123''\<rparr> # [])
   \<and> r53_ChangeResourceRecordSets accepting_env
        (upsert ''Z123'' ''home.example.com.'' ''203.0.113.5'') = None
   \<and> submitted (snd (updatehostname accepting_env home_u53)) =
        [upsert ''Z123'' ''home.example.com.'' ''203.0.113.5'']
   \<and> sends (snd (updatehostname accepting_env home_u53)) = [None]
   \<and> previousip (fst (updatehostname accepting_env home_u53)) = ''203.0.113.5''"
proof -
  have u: "previousip home_u53 = []" "forceip home_u53 = ''203.0.113.5''"
    "hostname home_u53 = ''home.example.com''" "hostedzone home_u53 = []"
    by (simp_all add: home_u53_def)
  have p: "ParseIP accepting_env ''203.0.113.5''"
    by (simp add: accepting_env_def sample_env_def dotted_quad_203)
  have l: "r53_ListHostedZones accepting_env =
      Inr ([] @ \<lparr>Name = ''example.com.'', Id = ''Z123''\<rparr> # [])"
    by (simp add: accepting_env_def sample_env_def example_zones_def)
  have n: "\<forall>hz \<in> set []. \<not> HasSuffix ''home.example.com.'' (Name hz)"
    by simp
  have r: "r53_ChangeResourceRecordSets accepting_env
        (upsert ''Z123'' ''home.example.com.'' ''203.0.113.5'') = None"
    by (simp add: accepting_env_def sample_env_def)
  from updatehostname_end_to_end [OF u p l n] u p l n r show ?thesis
    by (simp add: Let_def upsert_def)
qed

subsection \<open>Error and string of a result\<close>

text \<open>
  Claim C10: in every result of the address resolver and of the zone resolver, a
  non-nil error comes with an empty string; and a result of the address resolver with a
  nil error carries a string that parses as an IP literal.
\<close>

theorem resolver_results_exclusive:
  "(PublicIP.e (fst (GetPublicIP w ov geturl)) \<noteq> None \<longrightarrow>
      ip (fst (GetPublicIP w ov geturl)) = [])
   \<and> (PublicIP.e (fst (GetPublicIP w ov geturl)) = None \<longrightarrow>
      ParseIP w (ip (fst (GetPublicIP w ov geturl))))
   \<and> (futureAns.e (fst (getHostedZoneID w host hz)) \<noteq> None \<longrightarrow>
      s (fst (getHostedZoneID w host hz)) = [])"
  by (auto simp add: GetPublicIP_def getHostedZoneID_def Let_def
      split: prod.splits option.splits sum.splits)

theorem resolver_results_exclusive_witness:
  "PublicIP.e (fst (GetPublicIP garbled_env '''' '''')) \<noteq> None
   \<and> ip (fst (GetPublicIP garbled_env '''' '''')) = []
   \<and> PublicIP.e (fst (GetPublicIP accepting_env ''203.0.113.5'' '''')) = None
   \<and> ParseIP accepting_env (ip (fst (GetPublicIP accepting_env ''203.0.113.5'' '''')))
   \<and> futureAns.e (fst (getHostedZoneID accepting_env ''home.example.org.'' '''')) \<noteq> None
   \<and> s (fst (getHostedZoneID accepting_env ''home.example.org.'' '''')) = []"
proof -
  have a: "PublicIP.e (fst (GetPublicIP garbled_env '''' '''')) \<noteq> None"
    by (simp add: GetPublicIP_def getFromMetadata_def garbled_env_def envs dotted_quad_999)
  have b: "PublicIP.e (fst (GetPublicIP accepting_env ''203.0.113.5'' '''')) = None"
    by (simp add: GetPublicIP_def accepting_env_def envs dotted_quad_203)
  have c: "futureAns.e (fst (getHostedZoneID accepting_env ''home.example.org.'' '''')) \<noteq> None"
    by (simp add: getHostedZoneID_def accepting_env_def envs example_zones_def HasSuffix_def)
  from resolver_results_exclusive [where w = garbled_env and ov = "''''" and geturl = "''''"
      and host = "''''" and hz = "''''"]
    resolver_results_exclusive [where w = accepting_env and ov = "''203.0.113.5''"
      and geturl = "''''" and host = "''home.example.org.''" and hz = "''''"] a b c
  show ?thesis by blast
qed

end
